theory Spec2Isabelle
  imports Main
begin

section \<open>JavaScript strings\<close>

text \<open>
  A JavaScript string is modelled as a \<^typ>\<open>string\<close>: one \<^typ>\<open>char\<close> per code unit,
  for code units below 256 (Latin-1). The string methods the asset class calls are
  written out for that range.
\<close>

definition lowerChar :: "char \<Rightarrow> char" where
  \<comment> \<open>\<open>String.prototype.toLowerCase\<close> on one code unit: A-Z and the Latin-1 capitals
      (U+00C0 to U+00DE, without the multiplication sign U+00D7) move up by 32.\<close>
  "lowerChar c =
     (let n = (of_char c :: nat)
      in if (65 \<le> n \<and> n \<le> 90) \<or> (192 \<le> n \<and> n \<le> 222 \<and> n \<noteq> 215)
         then char_of (n + 32) else c)"

definition toLowerCase :: "string \<Rightarrow> string" where
  "toLowerCase s = map lowerChar s"

definition isWhiteSpace :: "char \<Rightarrow> bool" where
  \<comment> \<open>what \<open>trim\<close> strips: tab, line feed, vertical tab, form feed, carriage return,
      space and the no-break space\<close>
  "isWhiteSpace c = ((of_char c :: nat) \<in> {9, 10, 11, 12, 13, 32, 160})"

definition trim :: "string \<Rightarrow> string" where
  "trim s = rev (dropWhile isWhiteSpace (rev (dropWhile isWhiteSpace s)))"

definition isWordChar :: "char \<Rightarrow> bool" where
  \<comment> \<open>the class \<open>\w\<close> of a regular expression without the unicode flag\<close>
  "isWordChar c =
     (let n = (of_char c :: nat)
      in (48 \<le> n \<and> n \<le> 57) \<or> (65 \<le> n \<and> n \<le> 90) \<or> n = 95 \<or> (97 \<le> n \<and> n \<le> 122))"

fun splitOn :: "char \<Rightarrow> string \<Rightarrow> string list" where
  \<comment> \<open>\<open>s.split(d)\<close> for a one-character string \<open>d\<close>\<close>
  "splitOn d [] = [[]]"
| "splitOn d (c # cs) =
     (if c = d then [] # splitOn d cs
      else (case splitOn d cs of [] \<Rightarrow> [[c]] | x # xs \<Rightarrow> (c # x) # xs))"

fun splitWordSpace :: "bool \<Rightarrow> string \<Rightarrow> string list" where
  \<comment> \<open>\<open>s.split(/\b\ /g)\<close>: the separator is one space standing at a word boundary.
      A space is not a word character, so the boundary is there exactly when the
      character before the space is a word character; the flag says whether the
      character before the rest of the text is one (False at the start of the text).\<close>
  "splitWordSpace pw [] = [[]]"
| "splitWordSpace pw (c # cs) =
     (if c = CHR '' '' \<and> pw then [] # splitWordSpace False cs
      else (case splitWordSpace (isWordChar c) cs of
              [] \<Rightarrow> [[c]] | x # xs \<Rightarrow> (c # x) # xs))"

fun replaceFirst :: "string \<Rightarrow> string \<Rightarrow> string \<Rightarrow> string" where
  \<comment> \<open>\<open>s.replace(pat, rep)\<close> with a string pattern: only the first occurrence is
      replaced\<close>
  "replaceFirst pat rep [] = (if pat = [] then rep else [])"
| "replaceFirst pat rep (c # cs) =
     (if take (length pat) (c # cs) = pat then rep @ drop (length pat) (c # cs)
      else c # replaceFirst pat rep cs)"

definition replaceAllChar :: "char \<Rightarrow> char \<Rightarrow> string \<Rightarrow> string" where
  \<comment> \<open>\<open>s.replace(/a/g, 'b')\<close> for single characters\<close>
  "replaceAllChar a b s = map (\<lambda>c. if c = a then b else c) s"

section \<open>Errors\<close>

datatype error =
    Message string    \<comment> \<open>a string thrown by the asset class itself\<close>
  | Rejected string   \<comment> \<open>an exception of an external collaborator (subprocess, parser,
                          file system), with its description\<close>
  | TypeError         \<comment> \<open>a property read on \<open>undefined\<close> or \<open>null\<close>, a method missing on a
                          value, a non-string handed to the path module\<close>

section \<open>Build options\<close>

record build_opts =
  cargoTargetDirName :: string
  cargoProfile :: string
  wasmPackProfile :: string

definition resolveMode :: "string option \<Rightarrow> string option \<Rightarrow> error + bool \<times> string" where
  \<comment> \<open>the two switches of \<open>buildOpts\<close>: the values of \<open>inReleaseMode\<close> and
      \<open>wasmPackProfile\<close> when the switches are left, from the values of
      \<open>process.env.WASM_PACK_PROFILE\<close> and \<open>process.env.NODE_ENV\<close> (None: undefined)\<close>
  "resolveMode wasmPackProfileEnv nodeEnv =
     (case wasmPackProfileEnv of
        Some v \<Rightarrow>
          (let l = toLowerCase v
           in if l = ''dev'' \<or> l = ''debug'' then Inr (False, ''dev'')
              else if l = ''release'' then Inr (True, ''release'')
              else if l = ''profiling'' then Inr (True, ''profiling'')
              else Inl (Message (v @
                '' (set by WASM_PACK_PROFILE) is not a recognized wasm-pack build profile'')))
      | None \<Rightarrow>
          (case nodeEnv of
             Some v \<Rightarrow>
               (let l = toLowerCase v
                in if l = ''dev'' \<or> l = ''development'' then Inr (False, ''dev'')
                   else if l = ''release'' \<or> l = ''production'' then Inr (True, ''release'')
                   else Inr (True, ''release''))
           | None \<Rightarrow> Inr (True, ''release'')))"

definition buildOpts :: "string option \<Rightarrow> string option \<Rightarrow> error + build_opts" where
  \<comment> \<open>the object \<open>buildOpts\<close> returns; \<open>this.options\<close>, which it destructures without
      using the parts, is always an object\<close>
  "buildOpts wasmPackProfileEnv nodeEnv =
     (case resolveMode wasmPackProfileEnv nodeEnv of
        Inl e \<Rightarrow> Inl e
      | Inr (inReleaseMode, profile) \<Rightarrow>
          Inr \<lparr> cargoTargetDirName = (if inReleaseMode then ''release'' else ''debug''),
                cargoProfile = (if inReleaseMode then ''--release'' else ''--debug''),
                wasmPackProfile = profile \<rparr>)"

section \<open>JavaScript values\<close>

text \<open>
  The parsed \<open>Cargo.toml\<close> and the parsed output of \<open>cargo metadata\<close> are JavaScript
  values. Numbers are integers or NaN here (the code only ever asks whether a value is
  truthy); \<open>JOther\<close> stands for any other truthy value, such as a TOML date.
\<close>

datatype jsval =
    JUndefined | JNull | JBool bool | JNum int | JNaN | JStr string | JOther
  | JArr "jsval list" | JObj "(string \<times> jsval) list"

fun truthy :: "jsval \<Rightarrow> bool" where
  "truthy JUndefined = False"
| "truthy JNull = False"
| "truthy (JBool b) = b"
| "truthy (JNum n) = (n \<noteq> 0)"
| "truthy JNaN = False"
| "truthy (JStr s) = (s \<noteq> [])"
| "truthy _ = True"

fun getProp :: "jsval \<Rightarrow> string \<Rightarrow> error + jsval" where
  \<comment> \<open>\<open>v[k]\<close> for the keys this class reads (lib, crate-type, package, name,
      target_directory): none of them is a property of a boolean, number, string or
      array, and reading a property of \<open>undefined\<close> or \<open>null\<close> throws\<close>
  "getProp JUndefined k = Inl TypeError"
| "getProp JNull k = Inl TypeError"
| "getProp (JObj fs) k = Inr (case map_of fs k of None \<Rightarrow> JUndefined | Some v \<Rightarrow> v)"
| "getProp _ k = Inr JUndefined"

fun isArray :: "jsval \<Rightarrow> bool" where
  "isArray (JArr xs) = True"
| "isArray _ = False"

fun includes_js :: "jsval \<Rightarrow> jsval \<Rightarrow> bool" where
  \<comment> \<open>\<open>Array.prototype.includes\<close>, called with a string only: on a primitive, the
      comparison SameValueZero is equality\<close>
  "includes_js (JArr xs) x = (x \<in> set xs)"
| "includes_js _ x = False"

fun asString :: "jsval \<Rightarrow> error + string" where
  \<comment> \<open>the path module throws a TypeError on an argument that is not a string\<close>
  "asString (JStr s) = Inr s"
| "asString _ = Inl TypeError"

section \<open>The host: environment, libraries, subprocesses\<close>

datatype event =
    Probe string                               \<comment> \<open>\<open>commandExists(cmd)\<close>\<close>
  | Exec string "string list" "string option"  \<comment> \<open>\<open>execFile(cmd, args, {cwd})\<close>\<close>

text \<open>
  Everything the asset class asks of its surroundings is a field of the host: the
  asset's name and options, the two environment variables, Node's path module and
  \<open>JSON.parse\<close>, the TOML parser, the bundler's \<open>getConfig\<close> and the \<open>lib\<close> helpers,
  and the answers to probes and subprocesses, which may depend on everything that ran
  before. A library call that rejects answers \<open>Inl\<close> with a description.
\<close>

record host =
  this_name :: string
  options_target :: "string option"
  env_WASM_PACK_PROFILE :: "string option"
  env_NODE_ENV :: "string option"
  path_basename :: "string \<Rightarrow> string"
  path_extname :: "string \<Rightarrow> string"
  path_dirname :: "string \<Rightarrow> string"
  path_join :: "string list \<Rightarrow> string"
  path_relative :: "string \<Rightarrow> string \<Rightarrow> string"
  toml_parse :: "string \<Rightarrow> string + jsval"
  JSON_parse :: "string \<Rightarrow> string + jsval"
  getConfig :: "string + jsval"
  lib_resolve :: "string + jsval"
  lib_readFile :: "string option \<Rightarrow> string + string"
  commandExists :: "event list \<Rightarrow> string \<Rightarrow> bool"
  execFile :: "event list \<Rightarrow> string \<Rightarrow> string list \<Rightarrow> string option \<Rightarrow> string + string"

record asset =
  events :: "event list"          \<comment> \<open>probes and subprocesses so far, oldest first\<close>
  jsPath :: "string option"       \<comment> \<open>None: the field is still undefined\<close>
  jsAltPath :: "string option"
  wasmPath :: "string option"
  depsPath :: "string option"

type_synonym 'a action = "asset \<Rightarrow> asset \<times> (error + 'a)"

definition ret :: "'a \<Rightarrow> 'a action" where
  "ret x = (\<lambda>s. (s, Inr x))"

definition throw :: "error \<Rightarrow> 'a action" where
  "throw e = (\<lambda>s. (s, Inl e))"

definition lift :: "error + 'a \<Rightarrow> 'a action" where
  "lift r = (\<lambda>s. (s, r))"

definition andThen :: "'a action \<Rightarrow> ('a \<Rightarrow> 'b action) \<Rightarrow> 'b action" where
  \<comment> \<open>\<open>await\<close> and sequencing: an error ends the function\<close>
  "andThen m f = (\<lambda>s. case m s of (s', Inl e) \<Rightarrow> (s', Inl e) | (s', Inr x) \<Rightarrow> f x s')"

definition external :: "string + 'a \<Rightarrow> error + 'a" where
  "external r = (case r of Inl d \<Rightarrow> Inl (Rejected d) | Inr x \<Rightarrow> Inr x)"

definition cmdExists :: "host \<Rightarrow> string \<Rightarrow> bool action" where
  \<comment> \<open>never throws: a probe that fails answers false\<close>
  "cmdExists w cmd =
     (\<lambda>s. (s\<lparr>events := events s @ [Probe cmd]\<rparr>, Inr (commandExists w (events s) cmd)))"

definition exec :: "host \<Rightarrow> string \<Rightarrow> string list \<Rightarrow> string option \<Rightarrow> string action" where
  \<comment> \<open>the promisified \<open>execFile\<close> with its \<open>cwd\<close> option (None: not given); the value is
      the subprocess's stdout. Whether the output fits \<open>maxBuffer\<close> is part of the host's
      answer.\<close>
  "exec w cmd args cwd =
     (\<lambda>s. (s\<lparr>events := events s @ [Exec cmd args cwd]\<rparr>,
           external (execFile w (events s) cmd args cwd)))"

definition RUST_TARGET :: string where
  "RUST_TARGET = ''wasm32-unknown-unknown''"

definition isTargetRust :: "host \<Rightarrow> bool" where
  "isTargetRust w =
     (path_basename w (this_name w) = ''Cargo.toml'' \<or> path_extname w (this_name w) = ''.rs'')"

definition isNormalTOML :: "host \<Rightarrow> bool" where
  "isNormalTOML w = (path_extname w (this_name w) = ''.toml'')"

definition isNode :: "host \<Rightarrow> bool" where
  \<comment> \<open>\<open>this.options.target === 'node'\<close>\<close>
  "isNode w = (options_target w = Some ''node'')"

definition hostBuildOpts :: "host \<Rightarrow> error + build_opts" where
  \<comment> \<open>\<open>this.buildOpts()\<close>: the resolver on the host's environment\<close>
  "hostBuildOpts w = buildOpts (env_WASM_PACK_PROFILE w) (env_NODE_ENV w)"

section \<open>The asset class\<close>

text \<open>The object a build strategy returns: its fields \<open>outDir\<close>, \<open>rustName\<close>, \<open>cargoDir\<close>.\<close>

record build_result =
  res_outDir :: string
  res_rustName :: string
  res_cargoDir :: string

definition crateTypeCheck :: "jsval \<Rightarrow> error + jsval" where
  "crateTypeCheck cargoConfig =
     (case getProp cargoConfig ''lib'' of
        Inl e \<Rightarrow> Inl e
      | Inr lib \<Rightarrow>
          if \<not> truthy lib then Inl (Message ''The `crate-type` in Cargo.toml should be `cdylib`'')
          else (case getProp lib ''crate-type'' of
                  Inl e \<Rightarrow> Inl e
                | Inr crateType \<Rightarrow>
                    if \<not> isArray crateType \<or> \<not> includes_js crateType (JStr ''cdylib'')
                    then Inl (Message ''The `crate-type` in Cargo.toml should be `cdylib`'')
                    else Inr cargoConfig))"

definition packageRustName :: "jsval \<Rightarrow> error + string" where
  \<comment> \<open>\<open>cargoConfig.package.name.replace(/-/g, '_')\<close>\<close>
  "packageRustName cargoConfig =
     (case getProp cargoConfig ''package'' of
        Inl e \<Rightarrow> Inl e
      | Inr package \<Rightarrow>
          (case getProp package ''name'' of
             Inl e \<Rightarrow> Inl e
           | Inr (JStr n) \<Rightarrow> Inr (replaceAllChar (CHR ''-'') (CHR ''_'') n)
           | Inr _ \<Rightarrow> Inl TypeError))"

definition targetDirectory :: "host \<Rightarrow> string \<Rightarrow> error + string" where
  \<comment> \<open>\<open>JSON.parse(stdout).target_directory\<close>, as the path module then receives it\<close>
  "targetDirectory w stdout =
     (case external (JSON_parse w stdout) of
        Inl e \<Rightarrow> Inl e
      | Inr cargoMetadata \<Rightarrow>
          (case getProp cargoMetadata ''target_directory'' of
             Inl e \<Rightarrow> Inl e
           | Inr cargoTargetDir \<Rightarrow> asString cargoTargetDir))"

definition wasmPackArgs :: "bool \<Rightarrow> bool \<Rightarrow> bool \<Rightarrow> string \<Rightarrow> string list" where
  \<comment> \<open>the argument list \<open>wasmPackBuild\<close> assembles\<close>
  "wasmPackArgs hasBuildCommand has_deps node profile =
     (let args = (if hasBuildCommand
                  then (if has_deps then [''build'', ''-m'', ''no-install''] else [''build''])
                  else (if has_deps then [''init'', ''-m'', ''no-install''] else [''init'']));
          args = (if node then args @ [''--target'', ''nodejs'']
                  else args @ [''--target'', ''bundler'']);
          args = args @ [''--'' @ profile]
      in args)"

definition wasmPackBuild :: "host \<Rightarrow> jsval \<Rightarrow> string \<Rightarrow> bool \<Rightarrow> build_result action" where
  "wasmPackBuild w cargoConfig cargoDir has_deps =
     (\<lambda>s0.
        let (s1, probe) = exec w ''wasm-pack'' [''build'', ''--help''] None s0;
            hasBuildCommand = (case probe of Inl _ \<Rightarrow> False | Inr _ \<Rightarrow> True)
        in andThen (lift (hostBuildOpts w)) (\<lambda>opts.
           andThen (exec w ''wasm-pack''
                      (wasmPackArgs hasBuildCommand has_deps (isNode w) (wasmPackProfile opts))
                      (Some cargoDir)) (\<lambda>_.
           andThen (lift (packageRustName cargoConfig)) (\<lambda>name.
           ret \<lparr> res_outDir = path_join w [cargoDir, ''pkg''],
                 res_rustName = name,
                 res_cargoDir = cargoDir \<rparr>))) s1)"

definition cargoBuildArgs :: "build_opts \<Rightarrow> string list" where
  "cargoBuildArgs opts = [''build'', ''--target'', RUST_TARGET, cargoProfile opts]"

definition cargoMetadataArgs :: "string list" where
  "cargoMetadataArgs = [''metadata'', ''--format-version'', ''1'']"

definition wasmBindgenArgs :: "host \<Rightarrow> string \<Rightarrow> string \<Rightarrow> string list" where
  "wasmBindgenArgs w outDir rustName =
     [path_join w [outDir, rustName @ ''.wasm''],
      ''--out-dir'', outDir,
      ''--target'', (if isNode w then ''nodejs'' else ''web'')]"

definition rawBuildBody :: "host \<Rightarrow> jsval \<Rightarrow> string \<Rightarrow> build_result action" where
  \<comment> \<open>the \<open>try\<close> block of \<open>rawBuild\<close>\<close>
  "rawBuildBody w cargoConfig cargoDir =
     andThen (lift (hostBuildOpts w)) (\<lambda>opts.
     andThen (exec w ''cargo'' (cargoBuildArgs opts) (Some cargoDir)) (\<lambda>_.
     andThen (exec w ''cargo'' cargoMetadataArgs (Some cargoDir)) (\<lambda>stdout.
     andThen (lift (targetDirectory w stdout)) (\<lambda>cargoTargetDir.
     let outDir = path_join w [cargoTargetDir, RUST_TARGET, cargoTargetDir]
     in andThen (lift (packageRustName cargoConfig)) (\<lambda>rustName.
        andThen (exec w ''wasm-bindgen'' (wasmBindgenArgs w outDir rustName) (Some cargoDir))
          (\<lambda>_.
        ret \<lparr> res_outDir = outDir, res_rustName = rustName, res_cargoDir = cargoDir \<rparr>))))))"

definition buildFailed :: error where
  \<comment> \<open>what the \<open>catch\<close> of \<open>rawBuild\<close> throws\<close>
  "buildFailed = Message ''Building failed... Please install wasm-pack and try again.''"

definition rawBuild :: "host \<Rightarrow> jsval \<Rightarrow> string \<Rightarrow> build_result action" where
  "rawBuild w cargoConfig cargoDir =
     (\<lambda>s. case rawBuildBody w cargoConfig cargoDir s of
             (s', Inl e) \<Rightarrow> (s', Inl buildFailed)
           | (s', Inr r) \<Rightarrow> (s', Inr r))"

definition getPath :: "host \<Rightarrow> string \<Rightarrow> string \<Rightarrow> string" where
  \<comment> \<open>the closure \<open>getPath\<close> of \<open>wasmPostProcess\<close>, with the \<open>outDir\<close> it captures;
      \<open>p[0] !== '.'\<close> holds for the empty string too\<close>
  "getPath w outDir relative =
     (let p = path_relative w (path_dirname w (this_name w)) (path_join w [outDir, relative]);
          p = (if take 1 p \<noteq> ''.'' then ''./'' @ p else p);
          p = replaceFirst [CHR 0x5C] ''/'' p
      in p)"

definition wasmPostProcess :: "host \<Rightarrow> build_result \<Rightarrow> unit action" where
  "wasmPostProcess w r =
     andThen (lift (hostBuildOpts w)) (\<lambda>opts.
     andThen (\<lambda>s. (s\<lparr> jsPath := Some (getPath w (res_outDir r) (res_rustName r @ ''.js'')),
                      jsAltPath := Some (getPath w (res_outDir r) (res_rustName r @ ''_bg.js'')),
                      wasmPath := Some (getPath w (res_outDir r) (res_rustName r @ ''_bg.wasm'')) \<rparr>,
                   Inr ())) (\<lambda>_.
     andThen (exec w ''cargo'' cargoMetadataArgs (Some (res_cargoDir r))) (\<lambda>stdout.
     andThen (lift (targetDirectory w stdout)) (\<lambda>cargoTargetDir.
     (\<lambda>s. (s\<lparr> depsPath := Some (path_join w [cargoTargetDir, RUST_TARGET,
                                                cargoTargetDirName opts, res_rustName r @ ''.d'']) \<rparr>,
           Inr ()))))))"

definition selectBuild ::
  "host \<Rightarrow> jsval \<Rightarrow> string \<Rightarrow> bool \<Rightarrow> bool \<Rightarrow> bool \<Rightarrow> build_result action" where
  \<comment> \<open>the branch of \<open>parse\<close> on the three probes\<close>
  "selectBuild w cargoConfig cargoDir has_wasm_pack has_cargo has_wasmbindgen =
     (if has_wasm_pack then wasmPackBuild w cargoConfig cargoDir (has_cargo \<and> has_wasmbindgen)
      else if has_cargo then
        (if has_wasmbindgen then rawBuild w cargoConfig cargoDir
         else throw (Message ''Please install wasm-pack''))
      else throw (Message ''Please install Cargo for Rust''))"

definition parse :: "host \<Rightarrow> string \<Rightarrow> jsval action" where
  \<comment> \<open>the value is what \<open>parse\<close> resolves to: the parsed TOML, or \<open>undefined\<close> after a
      build\<close>
  "parse w code =
     (if \<not> isTargetRust w then
        (if isNormalTOML w then lift (external (toml_parse w code))
         else throw (Message (this_name w @ '' is not valid Rust file or Cargo.toml'')))
      else
        andThen (lift (external (getConfig w))) (\<lambda>cargoConfig.
        andThen (lift (external (lib_resolve w))) (\<lambda>resolved.
        andThen (lift (asString resolved)) (\<lambda>resolvedPath.
        let cargoDir = path_dirname w resolvedPath
        in andThen (lift (crateTypeCheck cargoConfig)) (\<lambda>_.
           andThen (cmdExists w ''wasm-pack'') (\<lambda>has_wasm_pack.
           andThen (cmdExists w ''cargo'') (\<lambda>has_cargo.
           andThen (cmdExists w ''wasm-bindgen'') (\<lambda>has_wasmbindgen.
           andThen (selectBuild w cargoConfig cargoDir has_wasm_pack has_cargo has_wasmbindgen)
             (\<lambda>build_result.
           andThen (wasmPostProcess w build_result) (\<lambda>_.
           ret JUndefined))))))))))"

definition parseDeps :: "string \<Rightarrow> string \<Rightarrow> error + string list" where
  \<comment> \<open>lines 310 to 316 of \<open>collectDependencies\<close>: the names handed to \<open>addDependency\<close>, in
      order, from the text of the deps file and \<open>this.name\<close>. Without a colon in the text,
      \<open>split(':')[1]\<close> is \<open>undefined\<close> and the next \<open>split\<close> throws.\<close>
  "parseDeps contents name =
     (case splitOn (CHR '':'') (trim contents) of
        _ # rest # _ \<Rightarrow>
          (let deps = map (\<lambda>x. replaceFirst [CHR 0x5C, CHR '' ''] [] (trim x))
                          (splitWordSpace False rest)
           in Inr (filter (\<lambda>dep. dep \<noteq> name) deps))
      | _ \<Rightarrow> Inl TypeError)"

definition collectDependencies :: "host \<Rightarrow> asset \<Rightarrow> error + string list" where
  \<comment> \<open>the dependencies added; none for an asset that is not a Rust target\<close>
  "collectDependencies w s =
     (if \<not> isTargetRust w then Inr []
      else (case external (lib_readFile w (depsPath s)) of
              Inl e \<Rightarrow> Inl e
            | Inr contents \<Rightarrow> parseDeps contents (this_name w)))"

definition shown :: "string option \<Rightarrow> string" where
  \<comment> \<open>a field inside a template literal\<close>
  "shown v = (case v of None \<Rightarrow> ''undefined'' | Some x \<Rightarrow> x)"

definition generate :: "host \<Rightarrow> asset \<Rightarrow> error + string" where
  \<comment> \<open>the \<open>value\<close> of the one generated part, whose type is js\<close>
  "generate w s =
     (if isTargetRust w then
        (if isNode w then external (lib_readFile w (jsPath s))
         else Inr (''import * as wasm from '' @ [CHR 0x27] @ shown (wasmPath s) @ [CHR 0x27, CHR 0x0A]
                   @ ''export * from '' @ [CHR 0x27] @ shown (jsAltPath s) @ [CHR 0x27, CHR 0x0A]))
      else Inl (Message (this_name w @ '' is not valid Rust file or Cargo.toml'')))"

section \<open>Sample hosts\<close>

text \<open>
  Two concrete hosts on which the theorems below are instantiated. Their path functions
  follow Node's path module on absolute paths without \<open>.\<close> or \<open>..\<close> segments and
  without a trailing separator, for the separator given: \<open>/\<close> on a POSIX host,
  the backslash on a Windows host, where a path starts with its drive and names are
  compared without regard to case.
\<close>

fun joinWith :: "string \<Rightarrow> string list \<Rightarrow> string" where
  "joinWith sep [] = []"
| "joinWith sep [x] = x"
| "joinWith sep (x # y # ys) = x @ sep @ joinWith sep (y # ys)"

definition sameSegment :: "char \<Rightarrow> string \<Rightarrow> string \<Rightarrow> bool" where
  \<comment> \<open>the Windows path module compares the two paths in lower case\<close>
  "sameSegment sep x y = (if sep = CHR 0x5C then toLowerCase x = toLowerCase y else x = y)"

fun dropCommon ::
  "char \<Rightarrow> string list \<Rightarrow> string list \<Rightarrow> string list \<times> string list" where
  "dropCommon sep (x # xs) (y # ys) =
     (if sameSegment sep x y then dropCommon sep xs ys else (x # xs, y # ys))"
| "dropCommon sep xs ys = (xs, ys)"

fun squeeze :: "char \<Rightarrow> string \<Rightarrow> string" where
  "squeeze sep (a # b # cs) =
     (if a = sep \<and> b = sep then squeeze sep (b # cs) else a # squeeze sep (b # cs))"
| "squeeze sep cs = cs"

definition sample_join :: "char \<Rightarrow> string list \<Rightarrow> string" where
  "sample_join sep parts =
     (let p = squeeze sep (joinWith [sep] (filter (\<lambda>x. x \<noteq> []) parts))
      in if p = [] then ''.'' else p)"

definition sample_basename :: "char \<Rightarrow> string \<Rightarrow> string" where
  "sample_basename sep p = (case rev (splitOn sep p) of [] \<Rightarrow> [] | x # _ \<Rightarrow> x)"

definition isRoot :: "char \<Rightarrow> string \<Rightarrow> bool" where
  \<comment> \<open>the first segment of an absolute path: empty, or a drive on a Windows host\<close>
  "isRoot sep seg = (seg = [] \<or> (sep = CHR 0x5C \<and> last seg = CHR '':''))"

definition sample_dirname :: "char \<Rightarrow> string \<Rightarrow> string" where
  \<comment> \<open>a file right under the root has the root, with its separator, as directory\<close>
  "sample_dirname sep p =
     (case butlast (splitOn sep p) of
        [] \<Rightarrow> ''.''
      | [seg] \<Rightarrow> (if isRoot sep seg then seg @ [sep] else seg)
      | segs \<Rightarrow> joinWith [sep] segs)"

definition sample_extname :: "char \<Rightarrow> string \<Rightarrow> string" where
  "sample_extname sep p =
     (case rev (splitOn (CHR ''.'') (sample_basename sep p)) of
        ext # stem # others \<Rightarrow> (if stem = [] \<and> others = [] then [] else CHR ''.'' # ext)
      | _ \<Rightarrow> [])"

definition sample_relative :: "char \<Rightarrow> string \<Rightarrow> string \<Rightarrow> string" where
  "sample_relative sep from to =
     (case dropCommon sep (filter (\<lambda>x. x \<noteq> []) (splitOn sep from))
                          (filter (\<lambda>x. x \<noteq> []) (splitOn sep to)) of
        (f, t) \<Rightarrow> joinWith [sep] (replicate (length f) ''..'' @ t))"

definition quoted :: "string \<Rightarrow> string" where
  "quoted x = [CHR 0x22] @ x @ [CHR 0x22]"

definition metadataJSON :: string where
  "metadataJSON = ''{'' @ quoted ''target_directory'' @ '':'' @ quoted ''/proj/target'' @ ''}''"

definition demoConfig :: jsval where
  \<comment> \<open>the manifest of the spec's end-to-end scenario\<close>
  "demoConfig =
     JObj [(''package'', JObj [(''name'', JStr ''demo-crate'')]),
           (''lib'', JObj [(''crate-type'', JArr [JStr ''cdylib''])])]"

definition posixHost :: host where
  \<comment> \<open>a crate at \<open>/proj\<close>, all three tools installed, every subprocess succeeding, no
      environment override, a browser bundle\<close>
  "posixHost =
     \<lparr> this_name = ''/proj/src/lib.rs'',
       options_target = Some ''browser'',
       env_WASM_PACK_PROFILE = None,
       env_NODE_ENV = None,
       path_basename = sample_basename (CHR ''/''),
       path_extname = sample_extname (CHR ''/''),
       path_dirname = sample_dirname (CHR ''/''),
       path_join = sample_join (CHR ''/''),
       path_relative = sample_relative (CHR ''/''),
       toml_parse = (\<lambda>code. if code = ''a = 1'' then Inr (JObj [(''a'', JNum 1)])
                              else Inl ''Unexpected character''),
       JSON_parse = (\<lambda>text. if text = metadataJSON
                              then Inr (JObj [(''target_directory'', JStr ''/proj/target'')])
                              else Inl ''Unexpected end of JSON input''),
       getConfig = Inr demoConfig,
       lib_resolve = Inr (JStr ''/proj/Cargo.toml''),
       lib_readFile = (\<lambda>p. Inl ''ENOENT''),
       commandExists = (\<lambda>before cmd. True),
       execFile = (\<lambda>before cmd args cwd.
                     if cmd = ''cargo'' \<and> args = [''metadata'', ''--format-version'', ''1'']
                     then Inr metadataJSON else Inr []) \<rparr>"

definition win32Host :: host where
  \<comment> \<open>the same crate at \<open>C:\proj\<close> on a Windows host\<close>
  "win32Host =
     posixHost
     \<lparr> this_name := ''C:'' @ [CHR 0x5C] @ ''proj'' @ [CHR 0x5C] @ ''src'' @ [CHR 0x5C] @ ''lib.rs'',
       path_basename := sample_basename (CHR 0x5C),
       path_extname := sample_extname (CHR 0x5C),
       path_dirname := sample_dirname (CHR 0x5C),
       path_join := sample_join (CHR 0x5C),
       path_relative := sample_relative (CHR 0x5C),
       JSON_parse := (\<lambda>text. if text = metadataJSON
                               then Inr (JObj [(''target_directory'',
                                      JStr (''C:'' @ [CHR 0x5C] @ ''proj'' @ [CHR 0x5C] @ ''target''))])
                               else Inl ''Unexpected end of JSON input''),
       lib_resolve := Inr (JStr (''C:'' @ [CHR 0x5C] @ ''proj'' @ [CHR 0x5C] @ ''Cargo.toml'')) \<rparr>"

definition rawHost :: "(string \<Rightarrow> string list \<Rightarrow> bool) \<Rightarrow> host" where
  \<comment> \<open>the POSIX host without wasm-pack, where the subprocesses picked by \<open>fails\<close> exit
      with an error\<close>
  "rawHost fails =
     posixHost
     \<lparr> commandExists := (\<lambda>before cmd. cmd \<noteq> ''wasm-pack''),
       execFile := (\<lambda>before cmd args cwd.
                      if fails cmd args then Inl ''exit status 101''
                      else execFile posixHost before cmd args cwd) \<rparr>"


definition freshAsset :: asset where
  "freshAsset = \<lparr> events = [], jsPath = None, jsAltPath = None, wasmPath = None, depsPath = None \<rparr>"

section \<open>Sequencing laws and runs of the build steps\<close>

lemma andThen_lift_Inr: "andThen (lift (Inr x)) f = f x"
  by (simp add: andThen_def lift_def)

lemma andThen_lift_Inl: "andThen (lift (Inl e)) f = throw e"
  by (simp add: andThen_def lift_def throw_def)

lemma andThen_exec:
  "andThen (exec w cmd args cwd) f s =
     (case execFile w (events s) cmd args cwd of
        Inl d \<Rightarrow> (s\<lparr>events := events s @ [Exec cmd args cwd]\<rparr>, Inl (Rejected d))
      | Inr out \<Rightarrow> f out (s\<lparr>events := events s @ [Exec cmd args cwd]\<rparr>))"
  by (simp add: andThen_def exec_def external_def split: sum.splits)

lemma andThen_cmdExists:
  "andThen (cmdExists w cmd) f s =
     f (commandExists w (events s) cmd) (s\<lparr>events := events s @ [Probe cmd]\<rparr>)"
  by (simp add: andThen_def cmdExists_def)

lemma unrecognised_profile:
  "toLowerCase v \<notin> {''dev'', ''debug'', ''release'', ''profiling''} \<Longrightarrow>
   buildOpts (Some v) n =
     Inl (Message (v @ '' (set by WASM_PACK_PROFILE) is not a recognized wasm-pack build profile''))"
  by (simp add: buildOpts_def resolveMode_def Let_def)

lemma parse_rust_pipeline:
  assumes "isTargetRust w" "getConfig w = Inr cargoConfig" "lib_resolve w = Inr (JStr p)"
    "crateTypeCheck cargoConfig = Inr c"
  shows "parse w code s =
     andThen (selectBuild w cargoConfig (path_dirname w p)
                (commandExists w (events s) ''wasm-pack'')
                (commandExists w (events s @ [Probe ''wasm-pack'']) ''cargo'')
                (commandExists w (events s @ [Probe ''wasm-pack'', Probe ''cargo''])
                   ''wasm-bindgen''))
       (\<lambda>build_result. andThen (wasmPostProcess w build_result) (\<lambda>_. ret JUndefined))
       (s\<lparr>events := events s @ [Probe ''wasm-pack'', Probe ''cargo'', Probe ''wasm-bindgen'']\<rparr>)"
  using assms
  by (simp add: parse_def external_def andThen_lift_Inr andThen_cmdExists Let_def)

lemma exec_apply:
  "exec w cmd args cwd s =
     (s\<lparr>events := events s @ [Exec cmd args cwd]\<rparr>, external (execFile w (events s) cmd args cwd))"
  by (simp add: exec_def)

lemma demo_crate_ok: "crateTypeCheck demoConfig = Inr demoConfig"
  by (simp add: crateTypeCheck_def demoConfig_def)

lemma andThen_lift_ret:
  "andThen (lift r) (\<lambda>x. ret (g x)) s = (s, case r of Inl e \<Rightarrow> Inl e | Inr x \<Rightarrow> Inr (g x))"
  by (simp add: andThen_def lift_def ret_def split: sum.splits)

lemma wasmPackBuild_run:
  assumes "hostBuildOpts w = Inr opts"
  shows "wasmPackBuild w cargoConfig dir has_deps s =
     (let args = wasmPackArgs
                   (\<not> isl (execFile w (events s) ''wasm-pack'' [''build'', ''--help''] None))
                   has_deps (isNode w) (wasmPackProfile opts);
          s1 = s\<lparr>events := events s @ [Exec ''wasm-pack'' [''build'', ''--help''] None]\<rparr>;
          s2 = s\<lparr>events := events s @ [Exec ''wasm-pack'' [''build'', ''--help''] None,
                                          Exec ''wasm-pack'' args (Some dir)]\<rparr>
      in case execFile w (events s1) ''wasm-pack'' args (Some dir) of
           Inl d \<Rightarrow> (s2, Inl (Rejected d))
         | Inr out \<Rightarrow>
             (s2, case packageRustName cargoConfig of
                    Inl e \<Rightarrow> Inl e
                  | Inr name \<Rightarrow> Inr \<lparr> res_outDir = path_join w [dir, ''pkg''],
                                       res_rustName = name, res_cargoDir = dir \<rparr>))"
proof (cases "execFile w (events s) ''wasm-pack'' [''build'', ''--help''] None")
  case (Inl d)
  then show ?thesis
    using assms
    by (simp add: wasmPackBuild_def exec_apply external_def andThen_lift_Inr andThen_exec
        andThen_lift_ret Let_def split: sum.splits)
next
  case (Inr out)
  then show ?thesis
    using assms
    by (simp add: wasmPackBuild_def exec_apply external_def andThen_lift_Inr andThen_exec
        andThen_lift_ret Let_def split: sum.splits)
qed

lemma isArray_iff: "isArray v \<longleftrightarrow> (\<exists>xs. v = JArr xs)"
  by (cases v) simp_all

lemma parse_manifest_rejected:
  assumes "isTargetRust w" "getConfig w = Inr cargoConfig" "lib_resolve w = Inr (JStr p)"
    "crateTypeCheck cargoConfig = Inl e"
  shows "parse w code s = (s, Inl e)"
  using assms
  by (simp add: parse_def external_def andThen_lift_Inr andThen_lift_Inl throw_def Let_def)

lemma rawBuild_error: "snd (rawBuild w cargoConfig dir s) = Inl e \<Longrightarrow> e = buildFailed"
  by (auto simp: rawBuild_def split: prod.splits sum.splits)






lemma wasmPackBuild_invalid_profile:
  assumes "hostBuildOpts w = Inl e"
  shows "wasmPackBuild w cargoConfig dir has_deps s =
     (s\<lparr>events := events s @ [Exec ''wasm-pack'' [''build'', ''--help''] None]\<rparr>, Inl e)"
  using assms by (simp add: wasmPackBuild_def andThen_lift_Inl throw_def exec_def)


section \<open>The mode resolver\<close>

text \<open>
  C4. Without \<open>WASM_PACK_PROFILE\<close>, the resolver reads \<open>NODE_ENV\<close> in lower case:
  \<open>dev\<close> and \<open>development\<close> give the non-release mode and the dev profile,
  \<open>release\<close> and \<open>production\<close> give release and release, every other string is
  ignored and gives release and release; without both variables the answer is release
  and release; and no value of \<open>NODE_ENV\<close> makes the resolver throw.
\<close>

theorem node_env_fallback:
  "(toLowerCase v = ''dev'' \<or> toLowerCase v = ''development'' \<longrightarrow>
      resolveMode None (Some v) = Inr (False, ''dev'') \<and>
      buildOpts None (Some v) =
        Inr \<lparr> cargoTargetDirName = ''debug'', cargoProfile = ''--debug'',
              wasmPackProfile = ''dev'' \<rparr>)
   \<and> (toLowerCase v = ''release'' \<or> toLowerCase v = ''production'' \<longrightarrow>
      resolveMode None (Some v) = Inr (True, ''release'') \<and>
      buildOpts None (Some v) =
        Inr \<lparr> cargoTargetDirName = ''release'', cargoProfile = ''--release'',
              wasmPackProfile = ''release'' \<rparr>)
   \<and> (toLowerCase v \<notin> {''dev'', ''development'', ''release'', ''production''} \<longrightarrow>
      resolveMode None (Some v) = Inr (True, ''release'') \<and>
      buildOpts None (Some v) =
        Inr \<lparr> cargoTargetDirName = ''release'', cargoProfile = ''--release'',
              wasmPackProfile = ''release'' \<rparr>)
   \<and> resolveMode None None = Inr (True, ''release'')
   \<and> buildOpts None None =
        Inr \<lparr> cargoTargetDirName = ''release'', cargoProfile = ''--release'',
              wasmPackProfile = ''release'' \<rparr>
   \<and> (\<forall>nodeEnv. \<exists>opts. buildOpts None nodeEnv = Inr opts)"
  by (auto simp: resolveMode_def buildOpts_def Let_def split: option.splits)

theorem node_env_fallback_witness:
  "toLowerCase ''Development'' = ''development''
   \<and> resolveMode None (Some ''Development'') = Inr (False, ''dev'')
   \<and> toLowerCase ''PRODUCTION'' = ''production''
   \<and> resolveMode None (Some ''PRODUCTION'') = Inr (True, ''release'')
   \<and> toLowerCase ''Staging'' \<notin> {''dev'', ''development'', ''release'', ''production''}
   \<and> resolveMode None (Some ''Staging'') = Inr (True, ''release'')"
proof -
  have a: "toLowerCase ''Development'' = ''development''" by code_simp
  have b: "toLowerCase ''PRODUCTION'' = ''production''" by code_simp
  have c: "toLowerCase ''Staging'' = ''staging''" by code_simp
  show ?thesis
    using node_env_fallback [of "''Development''"] node_env_fallback [of "''PRODUCTION''"]
      node_env_fallback [of "''Staging''"] a b c
    by simp
qed

text \<open>
  C3, as the code has it. \<open>WASM_PACK_PROFILE\<close> is read in lower case: \<open>dev\<close> and
  \<open>debug\<close> give the non-release mode and the dev profile, \<open>release\<close> gives release
  and release, \<open>profiling\<close> gives the release mode and the profiling profile, and on
  every other string the resolver throws a message that starts with the value as it
  was set. In a build with wasm-pack present, \<open>parse\<close> fails with that message after the
  three probes and after the subprocess \<open>wasm-pack build --help\<close>, and starts no
  wasm-pack build.
\<close>

theorem profile_override_resolution:
  "(toLowerCase v = ''dev'' \<or> toLowerCase v = ''debug'' \<longrightarrow>
      resolveMode (Some v) n = Inr (False, ''dev'') \<and>
      buildOpts (Some v) n =
        Inr \<lparr> cargoTargetDirName = ''debug'', cargoProfile = ''--debug'',
              wasmPackProfile = ''dev'' \<rparr>)
   \<and> (toLowerCase v = ''release'' \<longrightarrow>
      resolveMode (Some v) n = Inr (True, ''release'') \<and>
      buildOpts (Some v) n =
        Inr \<lparr> cargoTargetDirName = ''release'', cargoProfile = ''--release'',
              wasmPackProfile = ''release'' \<rparr>)
   \<and> (toLowerCase v = ''profiling'' \<longrightarrow>
      resolveMode (Some v) n = Inr (True, ''profiling'') \<and>
      buildOpts (Some v) n =
        Inr \<lparr> cargoTargetDirName = ''release'', cargoProfile = ''--release'',
              wasmPackProfile = ''profiling'' \<rparr>)
   \<and> (toLowerCase v \<notin> {''dev'', ''debug'', ''release'', ''profiling''} \<longrightarrow>
      buildOpts (Some v) n =
        Inl (Message (v @
          '' (set by WASM_PACK_PROFILE) is not a recognized wasm-pack build profile'')) \<and>
      (env_WASM_PACK_PROFILE w = Some v \<and> isTargetRust w \<and> getConfig w = Inr cargoConfig \<and>
       lib_resolve w = Inr (JStr p) \<and> crateTypeCheck cargoConfig = Inr cargoConfig \<and>
       commandExists w (events s) ''wasm-pack'' \<longrightarrow>
         parse w code s =
           (s\<lparr>events := events s @
                  [Probe ''wasm-pack'', Probe ''cargo'', Probe ''wasm-bindgen'',
                   Exec ''wasm-pack'' [''build'', ''--help''] None]\<rparr>,
            Inl (Message (v @
              '' (set by WASM_PACK_PROFILE) is not a recognized wasm-pack build profile'')))))"
proof (intro conjI impI)
  assume bad: "toLowerCase v \<notin> {''dev'', ''debug'', ''release'', ''profiling''}"
    and h: "env_WASM_PACK_PROFILE w = Some v \<and> isTargetRust w \<and> getConfig w = Inr cargoConfig \<and>
       lib_resolve w = Inr (JStr p) \<and> crateTypeCheck cargoConfig = Inr cargoConfig \<and>
       commandExists w (events s) ''wasm-pack''"
  have opts: "hostBuildOpts w =
      Inl (Message (v @ '' (set by WASM_PACK_PROFILE) is not a recognized wasm-pack build profile''))"
    using unrecognised_profile [OF bad] h by (simp add: hostBuildOpts_def)
  show "parse w code s =
           (s\<lparr>events := events s @
                  [Probe ''wasm-pack'', Probe ''cargo'', Probe ''wasm-bindgen'',
                   Exec ''wasm-pack'' [''build'', ''--help''] None]\<rparr>,
            Inl (Message (v @
              '' (set by WASM_PACK_PROFILE) is not a recognized wasm-pack build profile'')))"
    using h parse_rust_pipeline [of w cargoConfig p cargoConfig code s]
      wasmPackBuild_invalid_profile [OF opts]
    by (simp add: selectBuild_def andThen_def)
qed (simp_all add: resolveMode_def buildOpts_def Let_def)

theorem profile_override_resolution_witness:
  "toLowerCase ''DeBuG'' = ''debug''
   \<and> resolveMode (Some ''DeBuG'') None = Inr (False, ''dev'')
   \<and> toLowerCase ''Release'' = ''release''
   \<and> resolveMode (Some ''Release'') (Some ''development'') = Inr (True, ''release'')
   \<and> toLowerCase ''PROFILING'' = ''profiling''
   \<and> resolveMode (Some ''PROFILING'') None = Inr (True, ''profiling'')
   \<and> toLowerCase ''Fast'' \<notin> {''dev'', ''debug'', ''release'', ''profiling''}
   \<and> buildOpts (Some ''Fast'') None =
        Inl (Message ''Fast (set by WASM_PACK_PROFILE) is not a recognized wasm-pack build profile'')
   \<and> parse (posixHost\<lparr>env_WASM_PACK_PROFILE := Some ''Fast''\<rparr>) [] freshAsset =
        (freshAsset\<lparr>events := events freshAsset @
            [Probe ''wasm-pack'', Probe ''cargo'', Probe ''wasm-bindgen'',
             Exec ''wasm-pack'' [''build'', ''--help''] None]\<rparr>,
         Inl (Message ''Fast (set by WASM_PACK_PROFILE) is not a recognized wasm-pack build profile''))"
proof -
  let ?h = "posixHost\<lparr>env_WASM_PACK_PROFILE := Some ''Fast''\<rparr>"
  have a: "toLowerCase ''DeBuG'' = ''debug''" by code_simp
  have b: "toLowerCase ''Release'' = ''release''" by code_simp
  have c: "toLowerCase ''PROFILING'' = ''profiling''" by code_simp
  have d: "toLowerCase ''Fast'' = ''fast''" by code_simp
  have host: "env_WASM_PACK_PROFILE ?h = Some ''Fast''" "getConfig ?h = Inr demoConfig"
    "lib_resolve ?h = Inr (JStr ''/proj/Cargo.toml'')" "commandExists ?h (events freshAsset) ''wasm-pack''"
    by (simp_all add: posixHost_def)
  have rust: "isTargetRust ?h"
    by (simp add: isTargetRust_def posixHost_def sample_extname_def sample_basename_def)
  show ?thesis
    using profile_override_resolution [of "''DeBuG''" None]
      profile_override_resolution [of "''Release''" "Some ''development''"]
      profile_override_resolution [of "''PROFILING''" None]
      profile_override_resolution [where v = "''Fast''" and n = None and w = ?h
        and cargoConfig = demoConfig and p = "''/proj/Cargo.toml''" and s = freshAsset
        and code = "[]"]
      a b c d host rust demo_crate_ok
    by simp
qed

text \<open>
  C3 as stated fails: with \<open>WASM_PACK_PROFILE=fast\<close> and wasm-pack installed, the
  error comes after three probes and after the subprocess \<open>wasm-pack build --help\<close>.
\<close>

theorem profile_override_counterexample:
  "parse (posixHost\<lparr>env_WASM_PACK_PROFILE := Some ''fast''\<rparr>) [] freshAsset =
     (freshAsset\<lparr>events := [Probe ''wasm-pack'', Probe ''cargo'', Probe ''wasm-bindgen'',
                             Exec ''wasm-pack'' [''build'', ''--help''] None]\<rparr>,
      Inl (Message ''fast (set by WASM_PACK_PROFILE) is not a recognized wasm-pack build profile''))"
  by code_simp

section \<open>Strategy selection\<close>

text \<open>
  C5. The strategy is a function of the three probe answers. With wasm-pack present
  \<open>wasmPackBuild\<close> runs, whatever the other two answers are. With wasm-pack and
  wasm-bindgen absent and cargo present the build fails with \<open>Please install wasm-pack\<close>.
  With wasm-pack absent and cargo or wasm-bindgen missing, the build fails with a message
  that names one tool to install (wasm-pack when cargo is there, Cargo otherwise), and
  the three probes are all that ran: no subprocess was started.
\<close>

theorem strategy_selection:
  "selectBuild w cargoConfig dir True has_cargo has_wasmbindgen =
     wasmPackBuild w cargoConfig dir (has_cargo \<and> has_wasmbindgen)
   \<and> selectBuild w cargoConfig dir False True False s =
       (s, Inl (Message ''Please install wasm-pack''))
   \<and> (\<not> has_cargo \<or> \<not> has_wasmbindgen \<longrightarrow>
        selectBuild w cargoConfig dir False has_cargo has_wasmbindgen s =
          (s, Inl (Message (if has_cargo then ''Please install wasm-pack''
                            else ''Please install Cargo for Rust''))))
   \<and> (isTargetRust w \<and> getConfig w = Inr cargoConfig \<and> lib_resolve w = Inr (JStr p) \<and>
        crateTypeCheck cargoConfig = Inr cargoConfig \<and>
        commandExists w (events s) ''wasm-pack'' = has_wasm_pack \<and>
        commandExists w (events s @ [Probe ''wasm-pack'']) ''cargo'' = has_cargo \<and>
        commandExists w (events s @ [Probe ''wasm-pack'', Probe ''cargo'']) ''wasm-bindgen'' =
          has_wasmbindgen \<longrightarrow>
        (has_wasm_pack \<longrightarrow>
           parse w code s =
             andThen (wasmPackBuild w cargoConfig (path_dirname w p)
                        (has_cargo \<and> has_wasmbindgen))
               (\<lambda>build_result. andThen (wasmPostProcess w build_result) (\<lambda>_. ret JUndefined))
               (s\<lparr>events := events s @
                      [Probe ''wasm-pack'', Probe ''cargo'', Probe ''wasm-bindgen'']\<rparr>)) \<and>
        (\<not> has_wasm_pack \<and> (\<not> has_cargo \<or> \<not> has_wasmbindgen) \<longrightarrow>
           parse w code s =
             (s\<lparr>events := events s @
                    [Probe ''wasm-pack'', Probe ''cargo'', Probe ''wasm-bindgen'']\<rparr>,
              Inl (Message (if has_cargo then ''Please install wasm-pack''
                            else ''Please install Cargo for Rust'')))))"
proof -
  have pure: "selectBuild w cargoConfig dir True has_cargo has_wasmbindgen =
      wasmPackBuild w cargoConfig dir (has_cargo \<and> has_wasmbindgen)"
    "selectBuild w cargoConfig dir False True False s =
       (s, Inl (Message ''Please install wasm-pack''))"
    "\<not> has_cargo \<or> \<not> has_wasmbindgen \<longrightarrow>
        selectBuild w cargoConfig dir False has_cargo has_wasmbindgen s =
          (s, Inl (Message (if has_cargo then ''Please install wasm-pack''
                            else ''Please install Cargo for Rust'')))"
    by (auto simp: selectBuild_def throw_def)
  show ?thesis
    using pure parse_rust_pipeline [of w cargoConfig p cargoConfig code s]
    by (auto simp: selectBuild_def throw_def andThen_def)
qed

theorem strategy_selection_witness:
  "selectBuild (posixHost\<lparr>commandExists := (\<lambda>before cmd. cmd = ''cargo'')\<rparr>) demoConfig ''/proj''
       False True False freshAsset = (freshAsset, Inl (Message ''Please install wasm-pack''))
   \<and> parse (posixHost\<lparr>commandExists := (\<lambda>before cmd. cmd = ''cargo'')\<rparr>) [] freshAsset =
       (freshAsset\<lparr>events := [Probe ''wasm-pack'', Probe ''cargo'', Probe ''wasm-bindgen'']\<rparr>,
        Inl (Message ''Please install wasm-pack''))
   \<and> parse (posixHost\<lparr>commandExists := (\<lambda>before cmd. cmd = ''wasm-bindgen'')\<rparr>) [] freshAsset =
       (freshAsset\<lparr>events := [Probe ''wasm-pack'', Probe ''cargo'', Probe ''wasm-bindgen'']\<rparr>,
        Inl (Message ''Please install Cargo for Rust''))
   \<and> parse (posixHost\<lparr>commandExists := (\<lambda>before cmd. cmd = ''wasm-pack'')\<rparr>) [] freshAsset =
       andThen (wasmPackBuild (posixHost\<lparr>commandExists := (\<lambda>before cmd. cmd = ''wasm-pack'')\<rparr>)
                  demoConfig ''/proj'' False)
         (\<lambda>build_result.
            andThen (wasmPostProcess
                       (posixHost\<lparr>commandExists := (\<lambda>before cmd. cmd = ''wasm-pack'')\<rparr>)
                       build_result) (\<lambda>_. ret JUndefined))
         (freshAsset\<lparr>events := [Probe ''wasm-pack'', Probe ''cargo'', Probe ''wasm-bindgen'']\<rparr>)"
proof -
  have rust: "\<And>ce. isTargetRust (posixHost\<lparr>commandExists := ce\<rparr>)"
    by (simp add: isTargetRust_def posixHost_def sample_extname_def sample_basename_def)
  have cfg: "\<And>ce. getConfig (posixHost\<lparr>commandExists := ce\<rparr>) = Inr demoConfig"
    by (simp add: posixHost_def)
  have res: "\<And>ce. lib_resolve (posixHost\<lparr>commandExists := ce\<rparr>) = Inr (JStr ''/proj/Cargo.toml'')"
    by (simp add: posixHost_def)
  have dir: "\<And>ce. path_dirname (posixHost\<lparr>commandExists := ce\<rparr>) ''/proj/Cargo.toml'' = ''/proj''"
    by (simp add: posixHost_def sample_dirname_def)
  show ?thesis
    using strategy_selection [of "posixHost\<lparr>commandExists := (\<lambda>before cmd. cmd = ''cargo'')\<rparr>"
        demoConfig "''/proj''" True False freshAsset "''/proj/Cargo.toml''" False "[]"]
      strategy_selection [of "posixHost\<lparr>commandExists := (\<lambda>before cmd. cmd = ''wasm-bindgen'')\<rparr>"
        demoConfig "''/proj''" False True freshAsset "''/proj/Cargo.toml''" False "[]"]
      strategy_selection [of "posixHost\<lparr>commandExists := (\<lambda>before cmd. cmd = ''wasm-pack'')\<rparr>"
        demoConfig "''/proj''" False False freshAsset "''/proj/Cargo.toml''" True "[]"]
      rust cfg res dir demo_crate_ok
    by (simp add: freshAsset_def)
qed

section \<open>The wasm-pack command line\<close>

text \<open>
  C6. \<open>wasmPackBuild\<close> passes \<open>build\<close> when the probe \<open>wasm-pack build --help\<close>
  succeeds and \<open>init\<close> otherwise, then \<open>-m no-install\<close> exactly when cargo and
  wasm-bindgen were both found, then \<open>--target nodejs\<close> for the bundle target node and
  \<open>--target bundler\<close> otherwise (never \<open>web\<close>), and the profile flag last; the build
  runs in the crate directory, right after the probe.
\<close>

theorem wasm_pack_arguments:
  "wasmPackArgs hasBuildCommand has_deps node profile =
     [if hasBuildCommand then ''build'' else ''init'']
     @ (if has_deps then [''-m'', ''no-install''] else [])
     @ [''--target'', if node then ''nodejs'' else ''bundler'']
     @ [''--'' @ profile]
   \<and> last (wasmPackArgs hasBuildCommand has_deps node profile) = ''--'' @ profile
   \<and> ''web'' \<notin> set (wasmPackArgs hasBuildCommand has_deps node profile)
   \<and> (hostBuildOpts w = Inr opts \<longrightarrow>
        events (fst (selectBuild w cargoConfig dir True has_cargo has_wasmbindgen s)) =
          events s @
          [Exec ''wasm-pack'' [''build'', ''--help''] None,
           Exec ''wasm-pack''
             (wasmPackArgs (\<not> isl (execFile w (events s) ''wasm-pack'' [''build'', ''--help''] None))
                (has_cargo \<and> has_wasmbindgen) (options_target w = Some ''node'')
                (wasmPackProfile opts))
             (Some dir)])"
proof -
  have args: "wasmPackArgs hasBuildCommand has_deps node profile =
     [if hasBuildCommand then ''build'' else ''init'']
     @ (if has_deps then [''-m'', ''no-install''] else [])
     @ [''--target'', if node then ''nodejs'' else ''bundler'']
     @ [''--'' @ profile]"
    by (simp add: wasmPackArgs_def)
  have run: "events (fst (selectBuild w cargoConfig dir True has_cargo has_wasmbindgen s)) =
          events s @
          [Exec ''wasm-pack'' [''build'', ''--help''] None,
           Exec ''wasm-pack''
             (wasmPackArgs (\<not> isl (execFile w (events s) ''wasm-pack'' [''build'', ''--help''] None))
                (has_cargo \<and> has_wasmbindgen) (options_target w = Some ''node'')
                (wasmPackProfile opts))
             (Some dir)]" if "hostBuildOpts w = Inr opts"
    using wasmPackBuild_run [OF that, of cargoConfig dir "has_cargo \<and> has_wasmbindgen" s]
    by (simp add: selectBuild_def isNode_def Let_def split: sum.splits)
  show ?thesis
    using run by (simp add: args)
qed

theorem wasm_pack_arguments_witness:
  "hostBuildOpts (posixHost\<lparr>options_target := Some ''node'', env_NODE_ENV := Some ''development''\<rparr>) =
     Inr \<lparr> cargoTargetDirName = ''debug'', cargoProfile = ''--debug'', wasmPackProfile = ''dev'' \<rparr>
   \<and> events (fst (selectBuild
        (posixHost\<lparr>options_target := Some ''node'', env_NODE_ENV := Some ''development''\<rparr>)
        demoConfig ''/proj'' True True True freshAsset)) =
       [Exec ''wasm-pack'' [''build'', ''--help''] None,
        Exec ''wasm-pack'' [''build'', ''-m'', ''no-install'', ''--target'', ''nodejs'', ''--dev'']
          (Some ''/proj'')]"
proof -
  have opts: "hostBuildOpts (posixHost\<lparr>options_target := Some ''node'', env_NODE_ENV := Some ''development''\<rparr>) =
     Inr \<lparr> cargoTargetDirName = ''debug'', cargoProfile = ''--debug'', wasmPackProfile = ''dev'' \<rparr>"
    by code_simp
  show ?thesis
    using wasm_pack_arguments [of True True True "''dev''"
        "posixHost\<lparr>options_target := Some ''node'', env_NODE_ENV := Some ''development''\<rparr>"
        "\<lparr> cargoTargetDirName = ''debug'', cargoProfile = ''--debug'', wasmPackProfile = ''dev'' \<rparr>"
        demoConfig "''/proj''" True True freshAsset] opts
    by (simp add: freshAsset_def posixHost_def wasmPackArgs_def)
qed

section \<open>The manifest check\<close>

text \<open>
  C8. A parsed manifest without a \<open>lib\<close> section, or whose \<open>lib.crate-type\<close> is not a
  list, or whose list does not hold \<open>cdylib\<close>, is rejected with the crate-type message;
  in \<open>parse\<close> that error comes before any probe and any subprocess (the asset is as it
  was); and a manifest that passes the check is returned as it came.
\<close>

theorem invalid_manifest_rejected:
  "(map_of fs ''lib'' = None \<longrightarrow>
      crateTypeCheck (JObj fs) =
        Inl (Message ''The `crate-type` in Cargo.toml should be `cdylib`''))
   \<and> (map_of fs ''lib'' = Some lib \<and> (\<forall>xs. getProp lib ''crate-type'' \<noteq> Inr (JArr xs)) \<longrightarrow>
      crateTypeCheck (JObj fs) =
        Inl (Message ''The `crate-type` in Cargo.toml should be `cdylib`''))
   \<and> (map_of fs ''lib'' = Some lib \<and> getProp lib ''crate-type'' = Inr (JArr xs) \<and>
      JStr ''cdylib'' \<notin> set xs \<longrightarrow>
      crateTypeCheck (JObj fs) =
        Inl (Message ''The `crate-type` in Cargo.toml should be `cdylib`''))
   \<and> (isTargetRust w \<and> getConfig w = Inr cargoConfig \<and> lib_resolve w = Inr (JStr p) \<and>
      crateTypeCheck cargoConfig =
        Inl (Message ''The `crate-type` in Cargo.toml should be `cdylib`'') \<longrightarrow>
      parse w code s =
        (s, Inl (Message ''The `crate-type` in Cargo.toml should be `cdylib`'')))
   \<and> (crateTypeCheck cargoConfig = Inr c \<longrightarrow> c = cargoConfig)"
proof (intro conjI impI)
  show "crateTypeCheck (JObj fs) =
        Inl (Message ''The `crate-type` in Cargo.toml should be `cdylib`'')"
    if "map_of fs ''lib'' = None"
    using that by (simp add: crateTypeCheck_def)
  show "crateTypeCheck (JObj fs) =
        Inl (Message ''The `crate-type` in Cargo.toml should be `cdylib`'')"
    if "map_of fs ''lib'' = Some lib \<and> (\<forall>xs. getProp lib ''crate-type'' \<noteq> Inr (JArr xs))"
    using that
    by (cases lib) (auto simp: crateTypeCheck_def isArray_iff split: sum.splits option.splits)
  show "crateTypeCheck (JObj fs) =
        Inl (Message ''The `crate-type` in Cargo.toml should be `cdylib`'')"
    if "map_of fs ''lib'' = Some lib \<and> getProp lib ''crate-type'' = Inr (JArr xs) \<and>
      JStr ''cdylib'' \<notin> set xs"
    using that by (simp add: crateTypeCheck_def)
  show "parse w code s =
        (s, Inl (Message ''The `crate-type` in Cargo.toml should be `cdylib`''))"
    if "isTargetRust w \<and> getConfig w = Inr cargoConfig \<and> lib_resolve w = Inr (JStr p) \<and>
      crateTypeCheck cargoConfig =
        Inl (Message ''The `crate-type` in Cargo.toml should be `cdylib`'')"
    using that parse_manifest_rejected [of w cargoConfig p _ code s] by simp
  show "c = cargoConfig" if "crateTypeCheck cargoConfig = Inr c"
    using that by (auto simp: crateTypeCheck_def split: sum.splits if_splits)
qed

theorem invalid_manifest_rejected_witness:
  "map_of [(''package'', JObj [(''name'', JStr ''demo-crate'')])] ''lib'' = None
   \<and> crateTypeCheck (JObj [(''package'', JObj [(''name'', JStr ''demo-crate'')])]) =
       Inl (Message ''The `crate-type` in Cargo.toml should be `cdylib`'')
   \<and> crateTypeCheck (JObj [(''lib'', JObj [(''crate-type'', JStr ''cdylib'')])]) =
       Inl (Message ''The `crate-type` in Cargo.toml should be `cdylib`'')
   \<and> crateTypeCheck (JObj [(''lib'', JObj [(''crate-type'', JArr [JStr ''rlib''])])]) =
       Inl (Message ''The `crate-type` in Cargo.toml should be `cdylib`'')
   \<and> parse (posixHost\<lparr>getConfig := Inr (JObj [(''package'', JObj [(''name'', JStr ''demo-crate'')])])\<rparr>)
         [] freshAsset =
       (freshAsset, Inl (Message ''The `crate-type` in Cargo.toml should be `cdylib`''))
   \<and> crateTypeCheck demoConfig = Inr demoConfig"
proof -
  let ?nolib = "[(''package'', JObj [(''name'', JStr ''demo-crate'')])]"
  let ?h = "posixHost\<lparr>getConfig := Inr (JObj ?nolib)\<rparr>"
  have rust: "isTargetRust ?h"
    by (simp add: isTargetRust_def posixHost_def sample_extname_def sample_basename_def)
  have cfg: "getConfig ?h = Inr (JObj ?nolib)" by simp
  have res: "lib_resolve ?h = Inr (JStr ''/proj/Cargo.toml'')" by (simp add: posixHost_def)
  have a: "map_of ?nolib ''lib'' = None" by simp
  have b: "map_of [(''lib'', JObj [(''crate-type'', JStr ''cdylib'')])] ''lib'' =
             Some (JObj [(''crate-type'', JStr ''cdylib'')])
           \<and> (\<forall>xs. getProp (JObj [(''crate-type'', JStr ''cdylib'')]) ''crate-type'' \<noteq> Inr (JArr xs))"
    by simp
  have c: "map_of [(''lib'', JObj [(''crate-type'', JArr [JStr ''rlib''])])] ''lib'' =
             Some (JObj [(''crate-type'', JArr [JStr ''rlib''])])
           \<and> getProp (JObj [(''crate-type'', JArr [JStr ''rlib''])]) ''crate-type'' =
               Inr (JArr [JStr ''rlib''])
           \<and> JStr ''cdylib'' \<notin> set [JStr ''rlib'']"
    by simp
  have bad: "crateTypeCheck (JObj ?nolib) =
       Inl (Message ''The `crate-type` in Cargo.toml should be `cdylib`'')"
    using invalid_manifest_rejected [where fs = ?nolib] a by blast
  have p: "parse ?h [] freshAsset =
       (freshAsset, Inl (Message ''The `crate-type` in Cargo.toml should be `cdylib`''))"
    using invalid_manifest_rejected [where w = ?h and cargoConfig = "JObj ?nolib"
        and p = "''/proj/Cargo.toml''" and code = "[]" and s = freshAsset] rust cfg res bad
    by blast
  have d: "crateTypeCheck (JObj [(''lib'', JObj [(''crate-type'', JStr ''cdylib'')])]) =
       Inl (Message ''The `crate-type` in Cargo.toml should be `cdylib`'')"
    using invalid_manifest_rejected [where fs = "[(''lib'', JObj [(''crate-type'', JStr ''cdylib'')])]"
        and lib = "JObj [(''crate-type'', JStr ''cdylib'')]"] b by blast
  have e: "crateTypeCheck (JObj [(''lib'', JObj [(''crate-type'', JArr [JStr ''rlib''])])]) =
       Inl (Message ''The `crate-type` in Cargo.toml should be `cdylib`'')"
    using invalid_manifest_rejected [where fs = "[(''lib'', JObj [(''crate-type'', JArr [JStr ''rlib''])])]"
        and lib = "JObj [(''crate-type'', JArr [JStr ''rlib''])]" and xs = "[JStr ''rlib'']"] c
    by blast
  have ok: "crateTypeCheck demoConfig = Inr demoConfig"
    by (simp add: crateTypeCheck_def demoConfig_def)
  show ?thesis using a bad p d e ok by blast
qed

section \<open>Plain TOML assets\<close>

text \<open>
  C10. For an asset whose name ends in \<open>.toml\<close> and is not \<open>Cargo.toml\<close>, \<open>parse\<close>
  is the generic TOML parser and nothing else (it succeeds with the parsed value whenever
  the parser accepts the text, and runs nothing), and \<open>generate\<close> always throws the
  message that the file is not a valid Rust file or Cargo.toml, whatever state the asset
  is in.
\<close>

theorem toml_asset_never_generates:
  "path_basename w (this_name w) \<noteq> ''Cargo.toml'' \<and> path_extname w (this_name w) = ''.toml'' \<longrightarrow>
     parse w code s = (s, external (toml_parse w code))
     \<and> (\<forall>v. toml_parse w code = Inr v \<longrightarrow> parse w code s = (s, Inr v))
     \<and> generate w s' = Inl (Message (this_name w @ '' is not valid Rust file or Cargo.toml''))"
  by (simp add: parse_def generate_def isTargetRust_def isNormalTOML_def lift_def external_def)

theorem toml_asset_never_generates_witness:
  "path_basename (posixHost\<lparr>this_name := ''/proj/settings.toml''\<rparr>) ''/proj/settings.toml''
     \<noteq> ''Cargo.toml''
   \<and> path_extname (posixHost\<lparr>this_name := ''/proj/settings.toml''\<rparr>) ''/proj/settings.toml''
     = ''.toml''
   \<and> parse (posixHost\<lparr>this_name := ''/proj/settings.toml''\<rparr>) ''a = 1'' freshAsset =
       (freshAsset, Inr (JObj [(''a'', JNum 1)]))
   \<and> generate (posixHost\<lparr>this_name := ''/proj/settings.toml''\<rparr>) freshAsset =
       Inl (Message ''/proj/settings.toml is not valid Rust file or Cargo.toml'')"
proof -
  let ?h = "posixHost\<lparr>this_name := ''/proj/settings.toml''\<rparr>"
  have a: "path_basename ?h (this_name ?h) \<noteq> ''Cargo.toml''"
    by (simp add: posixHost_def sample_basename_def)
  have b: "path_extname ?h (this_name ?h) = ''.toml''"
    by (simp add: posixHost_def sample_extname_def sample_basename_def)
  have c: "toml_parse ?h ''a = 1'' = Inr (JObj [(''a'', JNum 1)])"
    by (simp add: posixHost_def)
  show ?thesis
    using toml_asset_never_generates [of ?h "''a = 1''" freshAsset freshAsset] a b c
    by (simp add: external_def)
qed

section \<open>The fallback build\<close>

text \<open>
  C7. Whatever fails inside \<open>rawBuild\<close>, the caller gets one and the same error, the
  message \<open>Building failed... Please install wasm-pack and try again.\<close>, and the reason
  of the failure is gone: so it is when \<open>cargo build\<close> fails, when \<open>cargo metadata\<close>
  fails, when its output cannot be parsed or holds no target directory, and when
  \<open>wasm-bindgen\<close> fails.
\<close>

theorem raw_build_uniform_error:
  "buildFailed = Message ''Building failed... Please install wasm-pack and try again.''
   \<and> (\<forall>e. snd (rawBuild w cargoConfig dir s) = Inl e \<longrightarrow> e = buildFailed)
   \<and> (hostBuildOpts w = Inr opts \<and>
      execFile w (events s) ''cargo'' (cargoBuildArgs opts) (Some dir) = Inl d
      \<longrightarrow>
      rawBuild w cargoConfig dir s =
        (s\<lparr>events := events s @ [Exec ''cargo'' (cargoBuildArgs opts) (Some dir)]\<rparr>,
         Inl buildFailed))
   \<and> (hostBuildOpts w = Inr opts \<and>
      execFile w (events s) ''cargo'' (cargoBuildArgs opts) (Some dir) = Inr out1 \<and>
      execFile w (events s @ [Exec ''cargo'' (cargoBuildArgs opts) (Some dir)])
        ''cargo'' cargoMetadataArgs (Some dir) = Inl d
      \<longrightarrow>
      rawBuild w cargoConfig dir s =
        (s\<lparr>events := events s @ [Exec ''cargo'' (cargoBuildArgs opts) (Some dir),
                                  Exec ''cargo'' cargoMetadataArgs (Some dir)]\<rparr>,
         Inl buildFailed))
   \<and> (hostBuildOpts w = Inr opts \<and>
      execFile w (events s) ''cargo'' (cargoBuildArgs opts) (Some dir) = Inr out1 \<and>
      execFile w (events s @ [Exec ''cargo'' (cargoBuildArgs opts) (Some dir)])
        ''cargo'' cargoMetadataArgs (Some dir) = Inr out2 \<and>
      targetDirectory w out2 = Inl e2
      \<longrightarrow>
      rawBuild w cargoConfig dir s =
        (s\<lparr>events := events s @ [Exec ''cargo'' (cargoBuildArgs opts) (Some dir),
                                  Exec ''cargo'' cargoMetadataArgs (Some dir)]\<rparr>,
         Inl buildFailed))
   \<and> (hostBuildOpts w = Inr opts \<and>
      execFile w (events s) ''cargo'' (cargoBuildArgs opts) (Some dir) = Inr out1 \<and>
      execFile w (events s @ [Exec ''cargo'' (cargoBuildArgs opts) (Some dir)])
        ''cargo'' cargoMetadataArgs (Some dir) = Inr out2 \<and>
      targetDirectory w out2 = Inr targetDir \<and>
      packageRustName cargoConfig = Inr name \<and>
      execFile w
        (events s @ [Exec ''cargo'' (cargoBuildArgs opts) (Some dir),
                     Exec ''cargo'' cargoMetadataArgs (Some dir)])
        ''wasm-bindgen''
        (wasmBindgenArgs w (path_join w [targetDir, RUST_TARGET, targetDir]) name)
        (Some dir) = Inl d
      \<longrightarrow>
      rawBuild w cargoConfig dir s =
        (s\<lparr>events := events s @
            [Exec ''cargo'' (cargoBuildArgs opts) (Some dir),
             Exec ''cargo'' cargoMetadataArgs (Some dir),
             Exec ''wasm-bindgen''
               (wasmBindgenArgs w (path_join w [targetDir, RUST_TARGET, targetDir]) name)
               (Some dir)]\<rparr>,
         Inl buildFailed))"
  apply (intro conjI allI impI)
  subgoal by (simp add: buildFailed_def)
  subgoal for e by (rule rawBuild_error)
  subgoal by (simp add: rawBuild_def rawBuildBody_def andThen_lift_Inr andThen_exec)
  subgoal by (simp add: rawBuild_def rawBuildBody_def andThen_lift_Inr andThen_exec)
  subgoal
    by (simp add: rawBuild_def rawBuildBody_def andThen_lift_Inr andThen_exec
        andThen_lift_Inl throw_def)
  subgoal
    by (simp add: rawBuild_def rawBuildBody_def andThen_lift_Inr andThen_exec Let_def)
  done

theorem raw_build_uniform_error_witness:
  "rawBuild (rawHost (\<lambda>cmd args. cmd = ''cargo'' \<and> take 1 args = [''build''])) demoConfig ''/proj''
       freshAsset =
     (freshAsset\<lparr>events := events freshAsset @
        [Exec ''cargo'' [''build'', ''--target'', ''wasm32-unknown-unknown'', ''--release'']
           (Some ''/proj'')]\<rparr>,
      Inl (Message ''Building failed... Please install wasm-pack and try again.''))
   \<and> rawBuild (rawHost (\<lambda>cmd args. cmd = ''cargo'' \<and> take 1 args = [''metadata''])) demoConfig
       ''/proj'' freshAsset =
     (freshAsset\<lparr>events := events freshAsset @
        [Exec ''cargo'' [''build'', ''--target'', ''wasm32-unknown-unknown'', ''--release'']
           (Some ''/proj''),
         Exec ''cargo'' [''metadata'', ''--format-version'', ''1''] (Some ''/proj'')]\<rparr>,
      Inl (Message ''Building failed... Please install wasm-pack and try again.''))
   \<and> rawBuild ((rawHost (\<lambda>cmd args. False))\<lparr>JSON_parse := (\<lambda>text. Inl ''Unexpected token'')\<rparr>)
       demoConfig ''/proj'' freshAsset =
     (freshAsset\<lparr>events := events freshAsset @
        [Exec ''cargo'' [''build'', ''--target'', ''wasm32-unknown-unknown'', ''--release'']
           (Some ''/proj''),
         Exec ''cargo'' [''metadata'', ''--format-version'', ''1''] (Some ''/proj'')]\<rparr>,
      Inl (Message ''Building failed... Please install wasm-pack and try again.''))
   \<and> rawBuild (rawHost (\<lambda>cmd args. cmd = ''wasm-bindgen'')) demoConfig ''/proj'' freshAsset =
     (freshAsset\<lparr>events := events freshAsset @
        [Exec ''cargo'' [''build'', ''--target'', ''wasm32-unknown-unknown'', ''--release'']
           (Some ''/proj''),
         Exec ''cargo'' [''metadata'', ''--format-version'', ''1''] (Some ''/proj''),
         Exec ''wasm-bindgen''
           [''/proj/target/wasm32-unknown-unknown/proj/target/demo_crate.wasm'',
            ''--out-dir'', ''/proj/target/wasm32-unknown-unknown/proj/target'',
            ''--target'', ''web'']
           (Some ''/proj'')]\<rparr>,
      Inl (Message ''Building failed... Please install wasm-pack and try again.''))"
proof -
  let ?rel = "\<lparr> cargoTargetDirName = ''release'', cargoProfile = ''--release'',
                 wasmPackProfile = ''release'' \<rparr>"
  let ?h1 = "rawHost (\<lambda>cmd args. cmd = ''cargo'' \<and> take 1 args = [''build''])"
  let ?h2 = "rawHost (\<lambda>cmd args. cmd = ''cargo'' \<and> take 1 args = [''metadata''])"
  let ?h3 = "(rawHost (\<lambda>cmd args. False))\<lparr>JSON_parse := (\<lambda>text. Inl ''Unexpected token'')\<rparr>"
  let ?h4 = "rawHost (\<lambda>cmd args. cmd = ''wasm-bindgen'')"
  let ?build = "Exec ''cargo'' (cargoBuildArgs ?rel) (Some ''/proj'')"
  let ?meta = "Exec ''cargo'' cargoMetadataArgs (Some ''/proj'')"
  have opts: "\<And>f. hostBuildOpts (rawHost f) = Inr ?rel" "hostBuildOpts ?h3 = Inr ?rel"
    by (simp_all add: hostBuildOpts_def rawHost_def posixHost_def buildOpts_def resolveMode_def)
  have name: "packageRustName demoConfig = Inr ''demo_crate''"
    by (simp add: packageRustName_def demoConfig_def replaceAllChar_def)
  have td: "targetDirectory ?h4 metadataJSON = Inr ''/proj/target''"
    by (simp add: targetDirectory_def rawHost_def posixHost_def external_def)
  have bad: "targetDirectory ?h3 metadataJSON = Inl (Rejected ''Unexpected token'')"
    by (simp add: targetDirectory_def external_def)
  have c1: "rawBuild ?h1 demoConfig ''/proj'' freshAsset =
      (freshAsset\<lparr>events := events freshAsset @ [?build]\<rparr>, Inl buildFailed)"
  proof -
    have "execFile ?h1 (events freshAsset) ''cargo'' (cargoBuildArgs ?rel) (Some ''/proj'') =
        Inl ''exit status 101''"
      by (simp add: rawHost_def cargoBuildArgs_def)
    then show ?thesis
      using raw_build_uniform_error [where w = ?h1 and opts = ?rel and s = freshAsset
          and dir = "''/proj''" and d = "''exit status 101''" and cargoConfig = demoConfig]
        opts(1) [of "\<lambda>cmd args. cmd = ''cargo'' \<and> take 1 args = [''build'']"]
      by blast
  qed
  have c2: "rawBuild ?h2 demoConfig ''/proj'' freshAsset =
      (freshAsset\<lparr>events := events freshAsset @ [?build, ?meta]\<rparr>, Inl buildFailed)"
  proof -
    have "execFile ?h2 (events freshAsset) ''cargo'' (cargoBuildArgs ?rel) (Some ''/proj'') = Inr []"
      "execFile ?h2 (events freshAsset @ [?build]) ''cargo'' cargoMetadataArgs (Some ''/proj'') =
        Inl ''exit status 101''"
      by (simp_all add: rawHost_def posixHost_def cargoBuildArgs_def cargoMetadataArgs_def)
    then show ?thesis
      using raw_build_uniform_error [where w = ?h2 and opts = ?rel and s = freshAsset
          and dir = "''/proj''" and d = "''exit status 101''" and cargoConfig = demoConfig
          and ?out1.0 = "[]"]
        opts(1) [of "\<lambda>cmd args. cmd = ''cargo'' \<and> take 1 args = [''metadata'']"]
      by blast
  qed
  have c3: "rawBuild ?h3 demoConfig ''/proj'' freshAsset =
      (freshAsset\<lparr>events := events freshAsset @ [?build, ?meta]\<rparr>, Inl buildFailed)"
  proof -
    have "execFile ?h3 (events freshAsset) ''cargo'' (cargoBuildArgs ?rel) (Some ''/proj'') = Inr []"
      "execFile ?h3 (events freshAsset @ [?build]) ''cargo'' cargoMetadataArgs (Some ''/proj'') =
        Inr metadataJSON"
      by (simp_all add: rawHost_def posixHost_def cargoBuildArgs_def cargoMetadataArgs_def)
    then show ?thesis
      using raw_build_uniform_error [where w = ?h3 and opts = ?rel and s = freshAsset
          and dir = "''/proj''" and cargoConfig = demoConfig
          and ?out1.0 = "[]" and ?out2.0 = metadataJSON
          and ?e2.0 = "Rejected ''Unexpected token''"]
        opts(2) bad
      by blast
  qed
  have c4: "rawBuild ?h4 demoConfig ''/proj'' freshAsset =
      (freshAsset\<lparr>events := events freshAsset @
         [?build, ?meta,
          Exec ''wasm-bindgen''
            (wasmBindgenArgs ?h4 (path_join ?h4 [''/proj/target'', RUST_TARGET, ''/proj/target''])
               ''demo_crate'')
            (Some ''/proj'')]\<rparr>, Inl buildFailed)"
  proof -
    have "execFile ?h4 (events freshAsset) ''cargo'' (cargoBuildArgs ?rel) (Some ''/proj'') = Inr []"
      "execFile ?h4 (events freshAsset @ [?build]) ''cargo'' cargoMetadataArgs (Some ''/proj'') =
        Inr metadataJSON"
      "execFile ?h4 (events freshAsset @ [?build, ?meta]) ''wasm-bindgen''
         (wasmBindgenArgs ?h4 (path_join ?h4 [''/proj/target'', RUST_TARGET, ''/proj/target''])
            ''demo_crate'')
         (Some ''/proj'') = Inl ''exit status 101''"
      by (simp_all add: rawHost_def posixHost_def cargoBuildArgs_def cargoMetadataArgs_def)
    then show ?thesis
      using raw_build_uniform_error [where w = ?h4 and opts = ?rel and s = freshAsset
          and dir = "''/proj''" and d = "''exit status 101''" and cargoConfig = demoConfig
          and ?out1.0 = "[]" and ?out2.0 = metadataJSON
          and targetDir = "''/proj/target''" and name = "''demo_crate''"]
        opts(1) [of "\<lambda>cmd args. cmd = ''wasm-bindgen''"] name td
      by blast
  qed
  have args: "cargoBuildArgs ?rel = [''build'', ''--target'', ''wasm32-unknown-unknown'', ''--release'']"
    "cargoMetadataArgs = [''metadata'', ''--format-version'', ''1'']"
    by (simp_all add: cargoBuildArgs_def cargoMetadataArgs_def RUST_TARGET_def)
  have bindgen:
    "wasmBindgenArgs ?h4 (path_join ?h4 [''/proj/target'', RUST_TARGET, ''/proj/target''])
       ''demo_crate'' =
     [''/proj/target/wasm32-unknown-unknown/proj/target/demo_crate.wasm'',
      ''--out-dir'', ''/proj/target/wasm32-unknown-unknown/proj/target'',
      ''--target'', ''web'']"
    by code_simp
  show ?thesis
    unfolding c1 c2 c3 c4 args bindgen buildFailed_def by simp
qed

section \<open>Output resolution\<close>



text \<open>
  C2. The three output paths are taken relative to the directory of the asset, get a
  leading \<open>./\<close> when they do not start with a dot, and should come out with forward
  slashes on every host. On the Windows host, for the crate output
  \<open>C:\proj\pkg\demo_crate_bg.wasm\<close> and the asset \<open>C:\proj\src\lib.rs\<close>, the path module
  answers \<open>..\pkg\demo_crate_bg.wasm\<close> and \<open>getPath\<close> turns only the first backslash
  into a slash; on the POSIX host the same crate gives \<open>../pkg/demo_crate_bg.wasm\<close>.
\<close>

theorem only_first_backslash_replaced:
  "getPath win32Host (''C:'' @ [CHR 0x5C] @ ''proj'' @ [CHR 0x5C] @ ''pkg'') ''demo_crate_bg.wasm'' =
     ''../pkg'' @ [CHR 0x5C] @ ''demo_crate_bg.wasm''
   \<and> path_relative win32Host (path_dirname win32Host (this_name win32Host))
       (path_join win32Host [''C:'' @ [CHR 0x5C] @ ''proj'' @ [CHR 0x5C] @ ''pkg'',
                             ''demo_crate_bg.wasm'']) =
     ''..'' @ [CHR 0x5C] @ ''pkg'' @ [CHR 0x5C] @ ''demo_crate_bg.wasm''
   \<and> getPath posixHost ''/proj/pkg'' ''demo_crate_bg.wasm'' = ''../pkg/demo_crate_bg.wasm''"
  by code_simp

section \<open>Dependency extraction\<close>

text \<open>
  C1. The deps file is cut at its first colon, the rest is split at the unescaped
  spaces, and every path but the asset's own becomes a dependency, with the escaped
  spaces of a path turned back into spaces. The code takes the first escaped space of a
  path out altogether, backslash and space, and leaves the later ones escaped: the path
  \<open>/p/my\ dir/a.rs\<close> comes out as \<open>/p/mydir/a.rs\<close>. On the spec's example, three paths
  without spaces of which the last is the asset's own, the answer is the first two.
\<close>

theorem escaped_space_is_dropped:
  "parseDeps (''out.wasm: /p/my'' @ [CHR 0x5C] @ '' dir/a.rs /p/b.rs'') ''/p/b.rs'' =
     Inr [''/p/mydir/a.rs'']
   \<and> parseDeps (''out.wasm: /p/a'' @ [CHR 0x5C] @ '' b'' @ [CHR 0x5C] @ '' c.rs'') ''/p/b.rs'' =
     Inr [''/p/ab'' @ [CHR 0x5C] @ '' c.rs'']
   \<and> parseDeps ''out.wasm: a.rs b.rs self.rs'' ''self.rs'' = Inr [''a.rs'', ''b.rs'']"
  by code_simp

end
